theory Spec2Isabelle
  imports Complex_Main "HOL-Library.AList"
begin

section \<open>Python values, dictionaries and exceptions\<close>

text \<open>
  The values that occur as attributes of a log record and as fields of the generated
  document.  A float is given by the rational number it denotes (only finite floats),
  an object of a class this development does not look into is \<open>PObject\<close> with a name.
\<close>

datatype pyval =
    PNone
  | PBool bool
  | PInt int
  | PFloat rat
  | PStr string
  | PTuple "pyval list"
  | PDict "(string \<times> pyval) list"
  | PTimestamp int int
  | PObject string

text \<open>
  Exceptions, as far as the \<open>except\<close> clauses of \<open>dblog.py\<close> tell them apart:
  \<open>OperationFailure\<close> is a subclass of \<open>PyMongoError\<close>, which is a subclass of
  \<open>Exception\<close>; \<open>PyMongoError\<close> below stands for every pymongo error that is not an
  \<open>OperationFailure\<close>; \<open>NonException\<close> stands for a \<open>BaseException\<close> that is not an
  \<open>Exception\<close> (\<open>KeyboardInterrupt\<close>, \<open>SystemExit\<close>).
\<close>

datatype exn =
    OperationFailure
  | PyMongoError
  | TypeError
  | AttributeError
  | IndexError
  | KeyError
  | OtherException string
  | NonException string

fun is_OperationFailure :: "exn \<Rightarrow> bool" where
  "is_OperationFailure OperationFailure = True"
| "is_OperationFailure _ = False"

fun is_PyMongoError :: "exn \<Rightarrow> bool" where
  "is_PyMongoError OperationFailure = True"
| "is_PyMongoError PyMongoError = True"
| "is_PyMongoError _ = False"

fun is_Exception :: "exn \<Rightarrow> bool" where
  "is_Exception (NonException _) = False"
| "is_Exception _ = True"

text \<open>Sequencing of computations that may raise: the first exception ends the sequence.\<close>

definition andthen :: "exn + 'a \<Rightarrow> ('a \<Rightarrow> exn + 'b) \<Rightarrow> exn + 'b" where
  "andthen m f = (case m of Inl e \<Rightarrow> Inl e | Inr x \<Rightarrow> f x)"

text \<open>
  A dictionary with string keys is an association list; the first binding of a key is
  the one that counts.  \<open>dict_keys\<close> are its keys, each once, and \<open>dict_len\<close> is
  Python's \<open>len\<close> of the dictionary.
\<close>

type_synonym dict = "(string \<times> pyval) list"

definition dict_keys :: "dict \<Rightarrow> string list" where
  "dict_keys d = remdups (map fst d)"

definition dict_len :: "dict \<Rightarrow> nat" where
  "dict_len d = length (dict_keys d)"

text \<open>\<open>d[key]\<close>: raises \<open>KeyError\<close> for a missing key.\<close>

definition dict_getitem :: "dict \<Rightarrow> string \<Rightarrow> exn + pyval" where
  "dict_getitem d k = (case map_of d k of None \<Rightarrow> Inl KeyError | Some v \<Rightarrow> Inr v)"

text \<open>
  A \<open>logging.LogRecord\<close> is given by its \<open>__dict__\<close>.  Reading an attribute that the
  record does not have raises \<open>AttributeError\<close>.
\<close>

type_synonym log_record = dict

definition getattr :: "log_record \<Rightarrow> string \<Rightarrow> exn + pyval" where
  "getattr record name = (case map_of record name of None \<Rightarrow> Inl AttributeError | Some v \<Rightarrow> Inr v)"

text \<open>
  \<open>v[i]\<close> for an integer index: tuples and strings are indexed (negative indices count
  from the end, \<open>IndexError\<close> out of range), a dictionary with string keys has no integer
  key, and the other values are not subscriptable.
\<close>

definition seq_index :: "'a list \<Rightarrow> int \<Rightarrow> exn + 'a" where
  "seq_index xs i =
     (if 0 \<le> i \<and> i < int (length xs) then Inr (xs ! nat i)
      else if i < 0 \<and> - int (length xs) \<le> i then Inr (xs ! nat (int (length xs) + i))
      else Inl IndexError)"

fun py_getitem :: "pyval \<Rightarrow> int \<Rightarrow> exn + pyval" where
  "py_getitem (PTuple xs) i = seq_index xs i"
| "py_getitem (PStr s) i = andthen (seq_index s i) (\<lambda>c. Inr (PStr [c]))"
| "py_getitem (PDict d) i = Inl KeyError"
| "py_getitem _ i = Inl TypeError"

section \<open>The library functions that \<open>dblog.py\<close> calls\<close>

text \<open>
  The functions of Python, of \<open>logging\<close> and of \<open>bson\<close> that \<open>MongoFormatter.format\<close>
  calls are not part of the repository.  They are parameters of the model; each of them
  may raise.
  \<^item> \<open>default_record\<close>: the \<open>__dict__\<close> of \<open>logging.LogRecord('', '', '', '', '', '', '', '')\<close>;
  \<^item> \<open>py_int\<close>: \<open>int(v)\<close>;
  \<^item> \<open>py_str\<close>: \<open>str(v)\<close>;
  \<^item> \<open>Timestamp\<close>: \<open>bson.timestamp.Timestamp(time, inc)\<close>;
  \<^item> \<open>getMessage\<close>: \<open>LogRecord.getMessage\<close>;
  \<^item> \<open>formatException\<close>: \<open>logging.Formatter.formatException\<close>;
  \<^item> \<open>other_format\<close>: the \<open>format\<close> method of a formatter that is not a \<open>MongoFormatter\<close>.
\<close>

record pylib =
  default_record :: log_record
  py_int :: "pyval \<Rightarrow> exn + int"
  py_str :: "pyval \<Rightarrow> exn + string"
  Timestamp :: "int \<Rightarrow> int \<Rightarrow> exn + pyval"
  getMessage :: "log_record \<Rightarrow> exn + string"
  formatException :: "pyval \<Rightarrow> exn + string"
  other_format :: "string \<Rightarrow> log_record \<Rightarrow> exn + dict"

section \<open>\<open>MongoFormatter\<close>\<close>

text \<open>Line 38: the keys of a default record.\<close>

definition DEFAULT_PROPERTIES :: "pylib \<Rightarrow> string list" where
  "DEFAULT_PROPERTIES lib = dict_keys (default_record lib)"

text \<open>Lines 43 to 54: the standard document, its values evaluated in the order written.\<close>

definition standard_document :: "pylib \<Rightarrow> log_record \<Rightarrow> exn + dict" where
  "standard_document lib record =
     andthen (getattr record ''created'') (\<lambda>created.
     andthen (py_int lib created) (\<lambda>secs.
     andthen (getattr record ''msecs'') (\<lambda>msecs.
     andthen (py_int lib msecs) (\<lambda>inc.
     andthen (Timestamp lib secs inc) (\<lambda>timestamp.
     andthen (getattr record ''levelname'') (\<lambda>levelname.
     andthen (getattr record ''thread'') (\<lambda>thread.
     andthen (getattr record ''threadName'') (\<lambda>threadName.
     andthen (getMessage lib record) (\<lambda>message.
     andthen (getattr record ''name'') (\<lambda>name.
     andthen (getattr record ''pathname'') (\<lambda>pathname.
     andthen (getattr record ''module'') (\<lambda>module.
     andthen (getattr record ''funcName'') (\<lambda>funcName.
     andthen (getattr record ''lineno'') (\<lambda>lineno.
       Inr [(''timestamp'', timestamp),
            (''level'', levelname),
            (''thread'', thread),
            (''threadName'', threadName),
            (''message'', PStr message),
            (''loggerName'', name),
            (''fileName'', pathname),
            (''module'', module),
            (''method'', funcName),
            (''lineNumber'', lineno)]))))))))))))))"

text \<open>Lines 56 to 63: the document decorated with the exception, if there is one.\<close>

definition with_exception :: "pylib \<Rightarrow> log_record \<Rightarrow> dict \<Rightarrow> exn + dict" where
  "with_exception lib record document =
     andthen (getattr record ''exc_info'') (\<lambda>exc_info.
       if exc_info \<noteq> PNone then
         andthen (py_getitem exc_info 1) (\<lambda>exc_value.
         andthen (py_str lib exc_value) (\<lambda>message.
         andthen (formatException lib exc_info) (\<lambda>stackTrace.
           Inr (AList.update ''exception''
                  (PDict [(''message'', PStr message),
                          (''code'', PInt 0),
                          (''stackTrace'', PStr stackTrace)]) document))))
       else Inr document)"

text \<open>Lines 68 and 69: the loop over the keys of \<open>contextual_extra\<close>.\<close>

fun copy_extra :: "log_record \<Rightarrow> string list \<Rightarrow> dict \<Rightarrow> exn + dict" where
  "copy_extra record [] document = Inr document"
| "copy_extra record (key # keys) document =
     andthen (dict_getitem record key) (\<lambda>v. copy_extra record keys (AList.update key v document))"

text \<open>Lines 65 to 69: the document decorated with the extra attributes of the record.\<close>

definition with_extra :: "pylib \<Rightarrow> log_record \<Rightarrow> dict \<Rightarrow> exn + dict" where
  "with_extra lib record document =
     (if length (DEFAULT_PROPERTIES lib) \<noteq> dict_len record then
        let contextual_extra = filter (\<lambda>key. key \<notin> set (DEFAULT_PROPERTIES lib)) (dict_keys record)
        in if contextual_extra \<noteq> [] then copy_extra record contextual_extra document
           else Inr document
      else Inr document)"

text \<open>\<open>MongoFormatter.format\<close>, lines 40 to 70.\<close>

definition MongoFormatter_format :: "pylib \<Rightarrow> log_record \<Rightarrow> exn + dict" where
  "MongoFormatter_format lib record =
     andthen (standard_document lib record) (\<lambda>document.
     andthen (with_exception lib record document) (\<lambda>document.
       with_extra lib record document))"

section \<open>The store driver and the error-reporting path\<close>

text \<open>
  Handles of \<open>pymongo\<close>: a client remembers how it was created, a database its client
  and name, a collection its database and name, and whether it was created capped.
\<close>

datatype client =
    ClientUrl string
  | ClientHostPort string int dict

datatype database = Database client string

datatype collection =
    Collection_byname database string
  | Collection_capped database string int int

text \<open>
  The calls that leave the program: to the store driver, and to
  \<open>logging.Handler.handleError\<close>.
  \<^item> \<open>NewClient c\<close>: \<open>pymongo.MongoClient(url)\<close> or
    \<open>pymongo.MongoClient(host=..., port=..., **options)\<close>;
  \<^item> \<open>Authenticate db username password\<close>: \<open>db.authenticate(username, password)\<close>;
  \<^item> \<open>CreateCapped db name max size\<close>:
    \<open>Collection(db, name, capped=True, max=max, size=size)\<close>;
  \<^item> \<open>Insert coll document\<close>: \<open>coll.insert(document)\<close>;
  \<^item> \<open>Logout db\<close>: \<open>db.logout()\<close>;
  \<^item> \<open>Close c\<close>: \<open>c.close()\<close>;
  \<^item> \<open>HandleError record\<close>: \<open>self.handleError(record)\<close>.
  Selecting a database of a client or a collection of a database by name
  (\<open>connection[name]\<close>, \<open>db[name]\<close>) only builds a handle: it is not a call.  The
  driver refuses a name that is not valid for a database or a collection (the empty
  name, for one) with \<open>InvalidName\<close>; the names of the handler are taken to be valid.
\<close>

datatype call =
    NewClient client
  | Authenticate database string string
  | CreateCapped database string int int
  | Insert collection dict
  | Logout database
  | Close client
  | HandleError log_record

text \<open>
  The world is the history of these calls, each with its outcome: \<open>None\<close> when the
  call returned, \<open>Some e\<close> when it raised \<open>e\<close>.  What a call does is a parameter of the
  model and may depend on the history: \<open>outcome\<close> says whether the call raises,
  \<open>authenticate_result\<close> is the value \<open>db.authenticate\<close> returns when it returns.
\<close>

type_synonym world = "(call \<times> exn option) list"

record driver =
  outcome :: "world \<Rightarrow> call \<Rightarrow> exn option"
  authenticate_result :: "world \<Rightarrow> database \<Rightarrow> string \<Rightarrow> string \<Rightarrow> bool"

definition perform :: "driver \<Rightarrow> call \<Rightarrow> world \<Rightarrow> exn option \<times> world" where
  "perform drv c w = (outcome drv w c, w @ [(c, outcome drv w c)])"

section \<open>\<open>MongoHandler\<close>\<close>

datatype formatter = MongoFormatter | OtherFormatter string

text \<open>
  The attributes of a \<open>MongoHandler\<close>.  \<open>connnection\<close> is the attribute that line 102
  assigns; an attribute that has not been assigned is \<open>None\<close> here.
\<close>

record MongoHandler =
  level :: int
  url :: "string option"
  host :: string
  port :: int
  database_name :: string
  collection_name :: string
  username :: "string option"
  password :: "string option"
  fail_silently :: bool
  connection :: "client option"
  db :: "database option"
  collection :: "collection option"
  authenticated :: bool
  formatter :: formatter
  capped :: bool
  capped_max :: int
  capped_size :: int
  options :: dict
  connnection :: "client option"

text \<open>
  A method returns its outcome (\<open>None\<close>: it returned, \<open>Some e\<close>: it raised \<open>e\<close>), the
  object as the method left it, and the world.
\<close>

text \<open>
  Lines 101 to 104, the body of the \<open>try\<close>.  \<open>self.url\<close> is true when it is neither
  \<open>None\<close> nor the empty string.
\<close>

definition connect_client :: "driver \<Rightarrow> MongoHandler \<Rightarrow> world \<Rightarrow> exn option \<times> MongoHandler \<times> world" where
  "connect_client drv self w =
     (let by_host_port =
            (case perform drv (NewClient (ClientHostPort (host self) (port self) (options self))) w of
               (None, w') \<Rightarrow>
                 (None, self\<lparr>connection := Some (ClientHostPort (host self) (port self) (options self))\<rparr>, w')
             | (Some e, w') \<Rightarrow> (Some e, self, w'))
      in case url self of
           None \<Rightarrow> by_host_port
         | Some u \<Rightarrow>
             if u \<noteq> [] then
               (case perform drv (NewClient (ClientUrl u)) w of
                  (None, w') \<Rightarrow> (None, self\<lparr>connnection := Some (ClientUrl u)\<rparr>, w')
                | (Some e, w') \<Rightarrow> (Some e, self, w'))
             else by_host_port)"

text \<open>Lines 112 to 114: the database, and the authentication.\<close>

definition connect_database :: "driver \<Rightarrow> MongoHandler \<Rightarrow> world \<Rightarrow> exn option \<times> MongoHandler \<times> world" where
  "connect_database drv self w =
     (case connection self of
        None \<Rightarrow> (Some TypeError, self, w)
      | Some conn \<Rightarrow>
          let d = Database conn (database_name self);
              self1 = self\<lparr>db := Some d\<rparr>
          in (case (username self1, password self1) of
                (Some u, Some p) \<Rightarrow>
                  (case perform drv (Authenticate d u p) w of
                     (None, w') \<Rightarrow>
                       (None, self1\<lparr>authenticated := authenticate_result drv w d u p\<rparr>, w')
                   | (Some e, w') \<Rightarrow> (Some e, self1, w'))
              | _ \<Rightarrow> (None, self1, w)))"

text \<open>Lines 116 to 123: the collection.\<close>

definition connect_collection :: "driver \<Rightarrow> MongoHandler \<Rightarrow> world \<Rightarrow> exn option \<times> MongoHandler \<times> world" where
  "connect_collection drv self w =
     (case db self of
        None \<Rightarrow> (Some TypeError, self, w)
      | Some d \<Rightarrow>
          if capped self then
            (case perform drv (CreateCapped d (collection_name self) (capped_max self) (capped_size self)) w of
               (None, w') \<Rightarrow>
                 (None, self\<lparr>collection := Some (Collection_capped d (collection_name self)
                                                   (capped_max self) (capped_size self))\<rparr>, w')
             | (Some e, w') \<Rightarrow>
                 if is_OperationFailure e then
                   (None, self\<lparr>collection := Some (Collection_byname d (collection_name self))\<rparr>, w')
                 else (Some e, self, w'))
          else (None, self\<lparr>collection := Some (Collection_byname d (collection_name self))\<rparr>, w))"

text \<open>
  \<open>MongoHandler._connect\<close>, lines 97 to 123.  An exception of the \<open>try\<close> that is a
  \<open>PyMongoError\<close> is handled by lines 106 to 110: the method returns at once when
  \<open>fail_silently\<close> is set, and raises the exception again otherwise.  Nothing after
  line 110 is inside a \<open>try\<close>, but for the creation of the capped collection.
\<close>

definition MongoHandler_connect :: "driver \<Rightarrow> MongoHandler \<Rightarrow> world \<Rightarrow> exn option \<times> MongoHandler \<times> world" where
  "MongoHandler_connect drv self w =
     (case connect_client drv self w of
        (Some e, self1, w1) \<Rightarrow>
          if is_PyMongoError e then
            (if fail_silently self1 then (None, self1, w1) else (Some e, self1, w1))
          else (Some e, self1, w1)
      | (None, self1, w1) \<Rightarrow>
          (case connect_database drv self1 w1 of
             (Some e, self2, w2) \<Rightarrow> (Some e, self2, w2)
           | (None, self2, w2) \<Rightarrow> connect_collection drv self2 w2))"

text \<open>
  \<open>MongoHandler.__init__\<close>, lines 75 to 95.  The object exists for the caller only when
  the constructor returns.
\<close>

definition MongoHandler_init ::
  "driver \<Rightarrow> int \<Rightarrow> string option \<Rightarrow> string \<Rightarrow> int \<Rightarrow> string \<Rightarrow> string \<Rightarrow> string option \<Rightarrow> string option
     \<Rightarrow> bool \<Rightarrow> formatter option \<Rightarrow> bool \<Rightarrow> int \<Rightarrow> int \<Rightarrow> dict \<Rightarrow> world
     \<Rightarrow> (exn + MongoHandler) \<times> world" where
  "MongoHandler_init drv level' url' host' port' database_name' collection' username' password'
       fail_silently' formatter' capped' capped_max' capped_size' options' w =
     (case MongoHandler_connect drv
             \<lparr>level = level', url = url', host = host', port = port',
              database_name = database_name', collection_name = collection',
              username = username', password = password', fail_silently = fail_silently',
              connection = None, db = None, collection = None, authenticated = False,
              formatter = MongoFormatter, capped = capped', capped_max = capped_max',
              capped_size = capped_size', options = options', connnection = None\<rparr> w of
        (None, self, w') \<Rightarrow> (Inr self, w')
      | (Some e, self, w') \<Rightarrow> (Inl e, w'))"

text \<open>\<open>MongoHandler.close\<close>, lines 125 to 130.\<close>

definition MongoHandler_close :: "driver \<Rightarrow> MongoHandler \<Rightarrow> world \<Rightarrow> exn option \<times> world" where
  "MongoHandler_close drv self w =
     (case (if authenticated self then
              (case db self of
                 None \<Rightarrow> (Some AttributeError, w)
               | Some d \<Rightarrow> perform drv (Logout d) w)
            else (None, w)) of
        (Some e, w1) \<Rightarrow> (Some e, w1)
      | (None, w1) \<Rightarrow>
          (case connection self of
             None \<Rightarrow> (None, w1)
           | Some conn \<Rightarrow> perform drv (Close conn) w1))"

text \<open>
  \<open>self.format(record)\<close> is \<open>logging.Handler.format\<close>: it applies the formatter of the
  handler.
\<close>

definition Handler_format :: "pylib \<Rightarrow> MongoHandler \<Rightarrow> log_record \<Rightarrow> exn + dict" where
  "Handler_format lib self record =
     (case formatter self of
        MongoFormatter \<Rightarrow> MongoFormatter_format lib record
      | OtherFormatter name \<Rightarrow> other_format lib name record)"

text \<open>\<open>MongoHandler.emit\<close>, lines 132 to 140.\<close>

definition MongoHandler_emit :: "driver \<Rightarrow> pylib \<Rightarrow> MongoHandler \<Rightarrow> log_record \<Rightarrow> world \<Rightarrow> exn option \<times> world" where
  "MongoHandler_emit drv lib self record w =
     (case collection self of
        None \<Rightarrow> (None, w)
      | Some coll \<Rightarrow>
          (case (case Handler_format lib self record of
                   Inl e \<Rightarrow> (Some e, w)
                 | Inr document \<Rightarrow> perform drv (Insert coll document) w) of
             (None, w1) \<Rightarrow> (None, w1)
           | (Some e, w1) \<Rightarrow>
               if is_Exception e then
                 (if \<not> fail_silently self then perform drv (HandleError record) w1 else (None, w1))
               else (Some e, w1)))"

section \<open>Concrete libraries, records and drivers\<close>

text \<open>
  One library to run the model on: the attributes that a default \<open>LogRecord\<close> has under
  Python 2.7 (only the keys matter), \<open>int\<close> on numbers, \<open>str\<close> on strings, on \<open>None\<close>
  and on objects (whose name is taken as their string form), a \<open>Timestamp\<close> that checks
  its range, a \<open>getMessage\<close> for records without arguments (the message is \<open>msg\<close>),
  and a \<open>formatException\<close> that writes what the standard library writes: the header and
  the frames of the traceback when there is one (the name of a traceback object is taken
  as its formatted frames), then the final line, \<open>class: value\<close>, or \<open>class\<close> alone when
  the string form of the value is empty; the name of a class object is the name of the
  class.
\<close>

definition sample_default_record :: log_record where
  "sample_default_record =
     [(''name'', PStr []), (''msg'', PStr []), (''args'', PStr []),
      (''levelname'', PStr ''Level ''), (''levelno'', PStr []), (''pathname'', PStr []),
      (''filename'', PStr []), (''module'', PStr []), (''exc_info'', PStr []),
      (''exc_text'', PNone), (''lineno'', PStr []), (''funcName'', PStr []),
      (''created'', PFloat 1468844382), (''msecs'', PFloat 0), (''relativeCreated'', PFloat 0),
      (''thread'', PInt 140298168952640), (''threadName'', PStr ''MainThread''),
      (''processName'', PStr ''MainProcess''), (''process'', PInt 4711)]"

definition sample_lib :: pylib where
  "sample_lib =
     \<lparr>default_record = sample_default_record,
      py_int = (\<lambda>v. case v of
                       PInt i \<Rightarrow> Inr i
                     | PBool b \<Rightarrow> Inr (if b then 1 else 0)
                     | PFloat q \<Rightarrow> Inr (if 0 \<le> q then \<lfloor>q\<rfloor> else \<lceil>q\<rceil>)
                     | _ \<Rightarrow> Inl TypeError),
      py_str = (\<lambda>v. case v of
                       PStr s \<Rightarrow> Inr s
                     | PNone \<Rightarrow> Inr ''None''
                     | PObject name \<Rightarrow> Inr name
                     | _ \<Rightarrow> Inl (OtherException ''str'')),
      Timestamp = (\<lambda>t i. if 0 \<le> t \<and> t < 2 ^ 32 \<and> 0 \<le> i \<and> i < 2 ^ 32
                           then Inr (PTimestamp t i) else Inl (OtherException ''ValueError'')),
      getMessage = (\<lambda>record. case map_of record ''msg'' of
                                None \<Rightarrow> Inl AttributeError
                              | Some (PStr s) \<Rightarrow> Inr s
                              | Some _ \<Rightarrow> Inl (OtherException ''getMessage'')),
      formatException = (\<lambda>ei. case ei of
                                  PTuple [PObject cls, PObject v, PNone] \<Rightarrow>
                                    Inr (if v = [] then cls else cls @ '': '' @ v)
                                | PTuple [PObject cls, PObject v, PObject frames] \<Rightarrow>
                                    Inr (''Traceback (most recent call last):\<newline>'' @ frames @
                                         (if v = [] then cls else cls @ '': '' @ v))
                                | PTuple [PNone, PNone, PNone] \<Rightarrow> Inr ''NoneType: None''
                                | _ \<Rightarrow> Inl TypeError),
      other_format = (\<lambda>name record. Inr [])\<rparr>"

text \<open>
  The record of \<open>logger.info('Hello World')\<close> of the module's docstring: the attributes of
  a default record and no other.
\<close>

definition hello_record :: log_record where
  "hello_record =
     [(''name'', PStr ''bmclog''), (''msg'', PStr ''Hello World''), (''args'', PTuple []),
      (''levelname'', PStr ''INFO''), (''levelno'', PInt 20),
      (''pathname'', PStr ''/home/sophia/pyipmi/code/dblog.py''),
      (''filename'', PStr ''dblog.py''), (''module'', PStr ''dblog''), (''exc_info'', PNone),
      (''exc_text'', PNone), (''lineno'', PInt 157), (''funcName'', PStr ''<module>''),
      (''created'', PFloat (1468844382617 / 1000)), (''msecs'', PFloat 617),
      (''relativeCreated'', PFloat 12), (''thread'', PInt 140298168952640),
      (''threadName'', PStr ''MainThread''), (''processName'', PStr ''MainProcess''),
      (''process'', PInt 4711)]"


text \<open>The same event logged with \<open>extra={'exception': 'boom'}\<close>.\<close>

definition extra_exception_record :: log_record where
  "extra_exception_record = hello_record @ [(''exception'', PStr ''boom'')]"

text \<open>
  The same event logged with \<open>exc_info=True\<close> inside the \<open>except\<close> block that handles
  \<open>raise Exception('exc1')\<close>.
\<close>

definition exc_info_1 :: pyval where
  "exc_info_1 =
     PTuple [PObject ''Exception'', PObject ''exc1'',
             PObject ''  File dblog.py, line 36, in test_emit_exception\<newline>'']"

definition exception_record :: log_record where
  "exception_record = AList.update ''exc_info'' exc_info_1 hello_record"

text \<open>That event logged with \<open>exc_info=True\<close> and \<open>extra={'exception': 'boom'}\<close>.\<close>

definition exception_extra_exception_record :: log_record where
  "exception_extra_exception_record = exception_record @ [(''exception'', PStr ''boom'')]"

text \<open>
  The event of \<open>hello_record\<close> logged with \<open>exc_info=(E, E(), None)\<close>, where
  \<open>E = type('', (Exception,), {})\<close>: an exception class with the empty name, an exception
  with the empty string form, and no traceback.
\<close>

definition nameless_exc_info :: pyval where
  "nameless_exc_info = PTuple [PObject [], PObject [], PNone]"

definition nameless_exception_record :: log_record where
  "nameless_exception_record = AList.update ''exc_info'' nameless_exc_info hello_record"

text \<open>
  Drivers: a store that answers every call; a store that cannot be reached; a store in
  which the collection exists already; a store that rejects every insert.
\<close>

definition reachable_driver :: driver where
  "reachable_driver = \<lparr>outcome = (\<lambda>w c. None), authenticate_result = (\<lambda>w d u p. True)\<rparr>"

definition unreachable_driver :: driver where
  "unreachable_driver =
     \<lparr>outcome = (\<lambda>w c. case c of NewClient _ \<Rightarrow> Some PyMongoError | _ \<Rightarrow> None),
      authenticate_result = (\<lambda>w d u p. True)\<rparr>"

definition existing_collection_driver :: driver where
  "existing_collection_driver =
     \<lparr>outcome = (\<lambda>w c. case c of CreateCapped _ _ _ _ \<Rightarrow> Some OperationFailure | _ \<Rightarrow> None),
      authenticate_result = (\<lambda>w d u p. True)\<rparr>"

definition rejecting_driver :: driver where
  "rejecting_driver =
     \<lparr>outcome = (\<lambda>w c. case c of Insert _ _ \<Rightarrow> Some OperationFailure | _ \<Rightarrow> None),
      authenticate_result = (\<lambda>w d u p. True)\<rparr>"

section \<open>Notions used to state the properties\<close>

text \<open>The client that lines 101 to 104 ask the driver for.\<close>

definition target_client :: "string option \<Rightarrow> string \<Rightarrow> int \<Rightarrow> dict \<Rightarrow> client" where
  "target_client url' host' port' options' =
     (case url' of
        None \<Rightarrow> ClientHostPort host' port' options'
      | Some u \<Rightarrow> if u \<noteq> [] then ClientUrl u else ClientHostPort host' port' options')"

text \<open>The calls that create a capped collection.\<close>

fun is_CreateCapped :: "call \<Rightarrow> bool" where
  "is_CreateCapped (CreateCapped d name m s) = True"
| "is_CreateCapped _ = False"

text \<open>
  The handler that \<open>MongoHandler(fail_silently=True)\<close> leaves when the store cannot be
  reached: no connection, no database, no collection.
\<close>

definition inert_handler :: MongoHandler where
  "inert_handler =
     \<lparr>level = 0, url = None, host = ''localhost'', port = 27017,
      database_name = ''logs'', collection_name = ''logs'',
      username = None, password = None, fail_silently = True,
      connection = None, db = None, collection = None, authenticated = False,
      formatter = MongoFormatter, capped = False, capped_max = 1000,
      capped_size = 1000000, options = [], connnection = None\<rparr>"

text \<open>The handler that \<open>MongoHandler(fail_silently=...)\<close> leaves when the store answers.\<close>

definition ready_handler :: "bool \<Rightarrow> MongoHandler" where
  "ready_handler silent =
     \<lparr>level = 0, url = None, host = ''localhost'', port = 27017,
      database_name = ''logs'', collection_name = ''logs'',
      username = None, password = None, fail_silently = silent,
      connection = Some (ClientHostPort ''localhost'' 27017 []),
      db = Some (Database (ClientHostPort ''localhost'' 27017 []) ''logs''),
      collection = Some (Collection_byname
                           (Database (ClientHostPort ''localhost'' 27017 []) ''logs'') ''logs''),
      authenticated = False, formatter = MongoFormatter, capped = False, capped_max = 1000,
      capped_size = 1000000, options = [], connnection = None\<rparr>"

text \<open>The document of \<open>hello_record\<close>.\<close>

definition hello_document :: dict where
  "hello_document =
     [(''timestamp'', PTimestamp 1468844382 617),
      (''level'', PStr ''INFO''),
      (''thread'', PInt 140298168952640),
      (''threadName'', PStr ''MainThread''),
      (''message'', PStr ''Hello World''),
      (''loggerName'', PStr ''bmclog''),
      (''fileName'', PStr ''/home/sophia/pyipmi/code/dblog.py''),
      (''module'', PStr ''dblog''),
      (''method'', PStr ''<module>''),
      (''lineNumber'', PInt 157)]"


definition exception_document :: dict where
  "exception_document =
     hello_document @
     [(''exception'',
       PDict [(''message'', PStr ''exc1''),
              (''code'', PInt 0),
              (''stackTrace'',
               PStr (''Traceback (most recent call last):\<newline>'' @
                     ''  File dblog.py, line 36, in test_emit_exception\<newline>'' @
                     ''Exception: exc1''))])]"

text \<open>The collection of \<open>ready_handler\<close>.\<close>

definition logs_collection :: collection where
  "logs_collection =
     Collection_byname (Database (ClientHostPort ''localhost'' 27017 []) ''logs'') ''logs''"

section \<open>Facts about the parts of the model\<close>

lemma andthen_Inr: "andthen m f = Inr y \<longleftrightarrow> (\<exists>x. m = Inr x \<and> f x = Inr y)"
  by (cases m) (simp_all add: andthen_def)

lemma getattr_Inr: "getattr record name = Inr v \<longleftrightarrow> map_of record name = Some v"
  by (simp add: getattr_def split: option.splits)

lemma dict_getitem_Inr: "dict_getitem d k = Inr v \<longleftrightarrow> map_of d k = Some v"
  by (simp add: dict_getitem_def split: option.splits)

lemma set_dict_keys: "set (dict_keys d) = fst ` set d"
  by (simp add: dict_keys_def)



subsection \<open>The formatter\<close>

lemma standard_document_keys:
  assumes "standard_document lib record = Inr document"
  shows "map fst document =
           [''timestamp'', ''level'', ''thread'', ''threadName'', ''message'', ''loggerName'',
            ''fileName'', ''module'', ''method'', ''lineNumber'']"
  using assms unfolding standard_document_def andthen_Inr by auto

lemma with_exception_None:
  assumes "with_exception lib record document = Inr document'"
      and "map_of record ''exc_info'' = Some PNone"
  shows "document' = document"
  using assms by (simp add: with_exception_def andthen_Inr getattr_Inr)

lemma with_exception_Some:
  assumes "with_exception lib record document = Inr document'"
      and "map_of record ''exc_info'' \<noteq> Some PNone"
  shows "\<exists>exc_info exc_value message stackTrace.
           map_of record ''exc_info'' = Some exc_info \<and> exc_info \<noteq> PNone \<and>
           py_getitem exc_info 1 = Inr exc_value \<and>
           py_str lib exc_value = Inr message \<and>
           formatException lib exc_info = Inr stackTrace \<and>
           document' = AList.update ''exception''
                         (PDict [(''message'', PStr message), (''code'', PInt 0),
                                 (''stackTrace'', PStr stackTrace)]) document"
  using assms by (auto simp add: with_exception_def andthen_Inr getattr_Inr split: if_splits)


text \<open>The loop copies the values of its keys and leaves the other fields alone.\<close>

lemma copy_extra_result:
  assumes "copy_extra record keys document = Inr document'"
  shows "fst ` set document' = fst ` set document \<union> set keys \<and>
         (\<forall>k. map_of document' k = (if k \<in> set keys then map_of record k else map_of document k))"
  using assms
proof (induction keys arbitrary: document)
  case Nil
  then show ?case by simp
next
  case (Cons key keys)
  from Cons.prems obtain v where v: "map_of record key = Some v"
    and rest: "copy_extra record keys (AList.update key v document) = Inr document'"
    by (auto simp add: andthen_Inr dict_getitem_Inr)
  from Cons.IH [OF rest] v show ?case
    by (auto simp add: AList.dom_update AList.update_conv')
qed

text \<open>Whatever the record, only attributes outside the default ones are touched.\<close>

lemma with_extra_result:
  assumes "with_extra lib record document = Inr document'"
  shows "fst ` set document' \<subseteq> fst ` set document \<union> (fst ` set record - set (DEFAULT_PROPERTIES lib)) \<and>
         fst ` set document \<subseteq> fst ` set document' \<and>
         (\<forall>k. k \<notin> fst ` set record - set (DEFAULT_PROPERTIES lib) \<longrightarrow> map_of document' k = map_of document k)"
proof (cases "length (DEFAULT_PROPERTIES lib) \<noteq> dict_len record \<and>
              filter (\<lambda>key. key \<notin> set (DEFAULT_PROPERTIES lib)) (dict_keys record) \<noteq> []")
  case True
  with assms have "copy_extra record (filter (\<lambda>key. key \<notin> set (DEFAULT_PROPERTIES lib)) (dict_keys record)) document = Inr document'"
    by (simp add: with_extra_def)
  from copy_extra_result [OF this] show ?thesis
    by (auto simp add: set_dict_keys)
next
  case False
  with assms have "document' = document"
    by (auto simp add: with_extra_def Let_def split: if_splits)
  then show ?thesis by simp
qed


lemma format_parts:
  assumes "MongoFormatter_format lib record = Inr document"
  shows "\<exists>d1 d2. standard_document lib record = Inr d1 \<and> with_exception lib record d1 = Inr d2 \<and>
           with_extra lib record d2 = Inr document"
  using assms by (auto simp add: MongoFormatter_format_def andthen_Inr)

subsection \<open>The handler\<close>

lemma connect_client_outcome:
  "connect_client drv self w =
     (case outcome drv w (NewClient (target_client (url self) (host self) (port self) (options self))) of
        Some e \<Rightarrow> (Some e, self, w @ [(NewClient (target_client (url self) (host self) (port self) (options self)), Some e)])
      | None \<Rightarrow>
          (None,
           (if url self \<noteq> None \<and> url self \<noteq> Some []
            then self\<lparr>connnection := Some (target_client (url self) (host self) (port self) (options self))\<rparr>
            else self\<lparr>connection := Some (target_client (url self) (host self) (port self) (options self))\<rparr>),
           w @ [(NewClient (target_client (url self) (host self) (port self) (options self)), None)]))"
  by (auto simp add: connect_client_def target_client_def perform_def Let_def split: option.splits)

lemma connect_client_effect:
  assumes "connect_client drv self w = (r, self', w')"
  shows "(\<exists>c. w' = w @ [(NewClient c, r)]) \<and> formatter self' = formatter self \<and>
         capped self' = capped self \<and> collection_name self' = collection_name self \<and>
         db self' = db self \<and> collection self' = collection self"
  using assms unfolding connect_client_outcome
  by (cases "outcome drv w (NewClient (target_client (url self) (host self) (port self) (options self)))")
     (auto split: if_splits)

lemma connect_database_effect:
  assumes "connect_database drv self w = (r, self', w')"
  shows "(w' = w \<or> (\<exists>d u p. w' = w @ [(Authenticate d u p, r)])) \<and> formatter self' = formatter self \<and>
         capped self' = capped self \<and> collection_name self' = collection_name self \<and>
         collection self' = collection self"
proof (cases "connection self")
  case None
  with assms show ?thesis by (simp add: connect_database_def)
next
  case (Some conn)
  show ?thesis
  proof (cases "username self")
    case None
    with Some assms show ?thesis by (auto simp add: connect_database_def Let_def)
  next
    case u: (Some u)
    show ?thesis
    proof (cases "password self")
      case None
      with Some u assms show ?thesis by (auto simp add: connect_database_def Let_def)
    next
      case p: (Some p)
      show ?thesis
      proof (cases "outcome drv w (Authenticate (Database conn (database_name self)) u p)")
        case None
        with Some u p assms show ?thesis by (auto simp add: connect_database_def Let_def perform_def)
      next
        case e: (Some e)
        with Some u p assms show ?thesis by (auto simp add: connect_database_def Let_def perform_def)
      qed
    qed
  qed
qed

lemma connect_collection_effect:
  assumes "connect_collection drv self w = (r, self', w')"
  shows "formatter self' = formatter self \<and> db self' = db self \<and>
         (w' = w \<or>
          (\<exists>d x. db self = Some d \<and> capped self \<and>
                 w' = w @ [(CreateCapped d (collection_name self) (capped_max self) (capped_size self), x)] \<and>
                 (\<forall>e. x = Some e \<and> is_OperationFailure e \<longrightarrow>
                    r = None \<and> collection self' = Some (Collection_byname d (collection_name self)))))"
proof (cases "db self")
  case None
  with assms show ?thesis by (simp add: connect_collection_def)
next
  case (Some d)
  show ?thesis
  proof (cases "capped self")
    case False
    with Some assms show ?thesis by (auto simp add: connect_collection_def)
  next
    case True
    show ?thesis
    proof (cases "outcome drv w (CreateCapped d (collection_name self) (capped_max self) (capped_size self))")
      case None
      with Some True assms show ?thesis by (auto simp add: connect_collection_def perform_def)
    next
      case e: (Some e)
      with Some True assms show ?thesis
        by (cases "is_OperationFailure e") (auto simp add: connect_collection_def perform_def)
    qed
  qed
qed

text \<open>
  \<open>_connect\<close> leaves the formatter alone; and when it has asked for a capped collection
  and the driver has answered with an \<open>OperationFailure\<close>, it returns with the
  collection opened by name, the request being its only one and its last call.
\<close>

lemma connect_effect:
  assumes "MongoHandler_connect drv self w = (r, self', w')"
  shows "formatter self' = formatter self"
    and "(CreateCapped d name m s, Some e) \<in> set (drop (length w) w') \<Longrightarrow> is_OperationFailure e \<Longrightarrow>
           r = None \<and> capped self \<and> name = collection_name self \<and> db self' = Some d \<and>
           collection self' = Some (Collection_byname d name) \<and>
           filter (\<lambda>x. is_CreateCapped (fst x)) (drop (length w) w') = [(CreateCapped d name m s, Some e)] \<and>
           last w' = (CreateCapped d name m s, Some e)"
proof -
  obtain r1 self1 w1 where c1: "connect_client drv self w = (r1, self1, w1)"
    by (metis prod_cases3)
  note e1 = connect_client_effect [OF c1]
  from e1 obtain c where w1: "w1 = w @ [(NewClient c, r1)]" by blast
  show "formatter self' = formatter self"
  proof (cases r1)
    case (Some e1)
    with assms c1 e1 show ?thesis
      by (auto simp add: MongoHandler_connect_def split: if_splits)
  next
    case None
    obtain r2 self2 w2 where c2: "connect_database drv self1 w1 = (r2, self2, w2)"
      by (metis prod_cases3)
    note e2 = connect_database_effect [OF c2]
    show ?thesis
    proof (cases r2)
      case (Some e2)
      with None assms c1 c2 e1 e2 show ?thesis
        by (simp add: MongoHandler_connect_def)
    next
      case r2: None
      with None assms c1 c2 have c3: "connect_collection drv self2 w2 = (r, self', w')"
        by (simp add: MongoHandler_connect_def)
      from connect_collection_effect [OF c3] e1 e2 show ?thesis by simp
    qed
  qed
  assume cc: "(CreateCapped d name m s, Some e) \<in> set (drop (length w) w')" and op: "is_OperationFailure e"
  show "r = None \<and> capped self \<and> name = collection_name self \<and> db self' = Some d \<and>
           collection self' = Some (Collection_byname d name) \<and>
           filter (\<lambda>x. is_CreateCapped (fst x)) (drop (length w) w') = [(CreateCapped d name m s, Some e)] \<and>
           last w' = (CreateCapped d name m s, Some e)"
  proof (cases r1)
    case (Some e1)
    with assms c1 have "w' = w1"
      by (auto simp add: MongoHandler_connect_def split: if_splits)
    with cc w1 show ?thesis by simp
  next
    case None
    obtain r2 self2 w2 where c2: "connect_database drv self1 w1 = (r2, self2, w2)"
      by (metis prod_cases3)
    note e2 = connect_database_effect [OF c2]
    from e2 obtain auth where w2: "w2 = w @ (NewClient c, r1) # auth"
      and auth: "\<forall>x \<in> set auth. \<not> is_CreateCapped (fst x)"
      unfolding w1 by auto
    from auth have nin: "(CreateCapped d name m s, Some e) \<notin> set auth"
      by force
    show ?thesis
    proof (cases r2)
      case (Some e2)
      with None assms c1 c2 have "w' = w2"
        by (simp add: MongoHandler_connect_def)
      with cc w2 nin show ?thesis by auto
    next
      case r2: None
      with None assms c1 c2 have c3: "connect_collection drv self2 w2 = (r, self', w')"
        by (simp add: MongoHandler_connect_def)
      note e3 = connect_collection_effect [OF c3]
      from cc w2 nin have "w' \<noteq> w2" by auto
      with e3 obtain d' x where d': "db self2 = Some d'" and cap: "capped self2"
        and w': "w' = w2 @ [(CreateCapped d' (collection_name self2) (capped_max self2) (capped_size self2), x)]"
        and fallback: "\<forall>e. x = Some e \<and> is_OperationFailure e \<longrightarrow>
                    r = None \<and> collection self' = Some (Collection_byname d' (collection_name self2))"
        by blast
      from cc w' w2 nin have eq: "(CreateCapped d name m s, Some e) =
          (CreateCapped d' (collection_name self2) (capped_max self2) (capped_size self2), x)"
        by auto
      with fallback op have "r = None" "collection self' = Some (Collection_byname d name)"
        by auto
      moreover from e1 e2 cap eq have "capped self" "name = collection_name self" by auto
      moreover from e3 d' eq have "db self' = Some d" by simp
      moreover from w' w2 auth eq
      have "filter (\<lambda>x. is_CreateCapped (fst x)) (drop (length w) w') = [(CreateCapped d name m s, Some e)]"
        by (auto simp add: filter_empty_conv)
      moreover from w' eq have "last w' = (CreateCapped d name m s, Some e)" by simp
      ultimately show ?thesis by simp
    qed
  qed
qed

section \<open>The properties of the formatter\<close>



text \<open>
  C7, as stated, fails: the record of
  \<open>logger.info('Hello World', extra={'exception': 'boom'})\<close> carries no exception
  information, and its document has the key \<open>exception\<close>.
\<close>

theorem format_no_exception_key_counterexample:
  "getattr extra_exception_record ''exc_info'' = Inr PNone \<and>
   MongoFormatter_format sample_lib extra_exception_record =
     Inr [(''timestamp'', PTimestamp 1468844382 617),
          (''level'', PStr ''INFO''),
          (''thread'', PInt 140298168952640),
          (''threadName'', PStr ''MainThread''),
          (''message'', PStr ''Hello World''),
          (''loggerName'', PStr ''bmclog''),
          (''fileName'', PStr ''/home/sophia/pyipmi/code/dblog.py''),
          (''module'', PStr ''dblog''),
          (''method'', PStr ''<module>''),
          (''lineNumber'', PInt 157),
          (''exception'', PStr ''boom'')]"
  by code_simp

text \<open>
  C7, amended.  For every log event without exception information and without an extra
  attribute named \<open>exception\<close>, the document that \<open>MongoFormatter.format\<close> returns has no
  key \<open>exception\<close> at all.
\<close>

theorem format_no_exception_key:
  assumes "map_of record ''exc_info'' = Some PNone"
      and "''exception'' \<notin> fst ` set record - set (DEFAULT_PROPERTIES lib)"
      and "MongoFormatter_format lib record = Inr document"
  shows "''exception'' \<notin> fst ` set document \<and> map_of document ''exception'' = None"
proof -
  from format_parts [OF assms(3)] obtain d1 d2
    where d1: "standard_document lib record = Inr d1"
      and d2: "with_exception lib record d1 = Inr d2"
      and d3: "with_extra lib record d2 = Inr document"
    by blast
  have "''exception'' \<notin> set (map fst d1)"
    unfolding standard_document_keys [OF d1] by simp
  then have "''exception'' \<notin> fst ` set d1" by simp
  moreover have "d2 = d1" using with_exception_None [OF d2 assms(1)] .
  ultimately have "''exception'' \<notin> fst ` set d2" by simp
  with with_extra_result [OF d3] assms(2) have "''exception'' \<notin> fst ` set document"
    by blast
  then show ?thesis
    by (simp add: map_of_eq_None_iff)
qed

text \<open>The theorem at the record of \<open>logger.info('Hello World')\<close>.\<close>

theorem format_no_exception_key_witness:
  "map_of hello_record ''exc_info'' = Some PNone \<and>
   ''exception'' \<notin> fst ` set hello_record - set (DEFAULT_PROPERTIES sample_lib) \<and>
   MongoFormatter_format sample_lib hello_record = Inr hello_document \<and>
   map_of hello_document ''exception'' = None"
proof -
  have h1: "map_of hello_record ''exc_info'' = Some PNone"
    by code_simp
  have h2: "''exception'' \<notin> fst ` set hello_record - set (DEFAULT_PROPERTIES sample_lib)"
    by code_simp
  have h3: "MongoFormatter_format sample_lib hello_record = Inr hello_document"
    by code_simp
  show ?thesis
    by (rule conjI [OF h1 conjI [OF h2 conjI [OF h3 conjunct2 [OF format_no_exception_key [OF h1 h2 h3]]]]])
qed

text \<open>
  C8, as stated, fails, twice.  The record of
  \<open>logger.info('Hello World', exc_info=True, extra={'exception': 'boom'})\<close>, logged while
  the exception \<open>exc1\<close> is handled, carries exception information, and the field
  \<open>exception\<close> of its document is the string \<open>boom\<close>, not a mapping with a \<open>code\<close>.
  And the record of \<open>logger.info('Hello World', exc_info=(E, E(), None))\<close>, \<open>E\<close> an
  exception class with the empty name, carries exception information, and the
  \<open>stackTrace\<close> of its document is empty: \<open>formatException\<close> of the standard library
  returns the empty text for it, and lines 57 to 63 store what it returns.
\<close>

theorem format_exception_entry_counterexample:
  "getattr exception_extra_exception_record ''exc_info'' = Inr exc_info_1 \<and>
   exc_info_1 \<noteq> PNone \<and>
   MongoFormatter_format sample_lib exception_extra_exception_record =
     Inr [(''timestamp'', PTimestamp 1468844382 617),
          (''level'', PStr ''INFO''),
          (''thread'', PInt 140298168952640),
          (''threadName'', PStr ''MainThread''),
          (''message'', PStr ''Hello World''),
          (''loggerName'', PStr ''bmclog''),
          (''fileName'', PStr ''/home/sophia/pyipmi/code/dblog.py''),
          (''module'', PStr ''dblog''),
          (''method'', PStr ''<module>''),
          (''lineNumber'', PInt 157),
          (''exception'', PStr ''boom'')] \<and>
   getattr nameless_exception_record ''exc_info'' = Inr nameless_exc_info \<and>
   nameless_exc_info \<noteq> PNone \<and>
   MongoFormatter_format sample_lib nameless_exception_record =
     Inr [(''timestamp'', PTimestamp 1468844382 617),
          (''level'', PStr ''INFO''),
          (''thread'', PInt 140298168952640),
          (''threadName'', PStr ''MainThread''),
          (''message'', PStr ''Hello World''),
          (''loggerName'', PStr ''bmclog''),
          (''fileName'', PStr ''/home/sophia/pyipmi/code/dblog.py''),
          (''module'', PStr ''dblog''),
          (''method'', PStr ''<module>''),
          (''lineNumber'', PInt 157),
          (''exception'',
           PDict [(''message'', PStr []), (''code'', PInt 0), (''stackTrace'', PStr [])])]"
  by code_simp

text \<open>
  C8, amended.  For every log event with exception information and without an extra
  attribute named \<open>exception\<close>, the field \<open>exception\<close> of the document is the mapping
  with \<open>message\<close> the string form of the exception value (the second component of the
  exception information), \<open>code\<close> 0 and \<open>stackTrace\<close> the text that \<open>formatException\<close>
  returns for the exception information, the fully formatted traceback text.
\<close>

theorem format_exception_entry:
  assumes "map_of record ''exc_info'' = Some exc_info"
      and "exc_info \<noteq> PNone"
      and "''exception'' \<notin> fst ` set record - set (DEFAULT_PROPERTIES lib)"
      and "MongoFormatter_format lib record = Inr document"
  shows "\<exists>exc_value message stackTrace.
           py_getitem exc_info 1 = Inr exc_value \<and>
           py_str lib exc_value = Inr message \<and>
           formatException lib exc_info = Inr stackTrace \<and>
           map_of document ''exception'' =
             Some (PDict [(''message'', PStr message), (''code'', PInt 0),
                          (''stackTrace'', PStr stackTrace)])"
proof -
  from format_parts [OF assms(4)] obtain d1 d2
    where d1: "standard_document lib record = Inr d1"
      and d2: "with_exception lib record d1 = Inr d2"
      and d3: "with_extra lib record d2 = Inr document"
    by blast
  from assms(1,2) have "map_of record ''exc_info'' \<noteq> Some PNone" by simp
  from with_exception_Some [OF d2 this] assms(1) obtain exc_value message stackTrace
    where v: "py_getitem exc_info 1 = Inr exc_value"
      and m: "py_str lib exc_value = Inr message"
      and s: "formatException lib exc_info = Inr stackTrace"
      and d2_eq: "d2 = AList.update ''exception''
                         (PDict [(''message'', PStr message), (''code'', PInt 0),
                                 (''stackTrace'', PStr stackTrace)]) d1"
    by auto
  from with_extra_result [OF d3] assms(3)
  have "map_of document ''exception'' = map_of d2 ''exception''" by blast
  also have "\<dots> = Some (PDict [(''message'', PStr message), (''code'', PInt 0),
                                 (''stackTrace'', PStr stackTrace)])"
    unfolding d2_eq by (simp add: AList.update_conv')
  finally show ?thesis using v m s by blast
qed

text \<open>
  The theorem at the record of \<open>logger.info('Hello World', exc_info=True)\<close>, logged while
  the exception \<open>exc1\<close> is handled: the stack trace is the header, the frame and the
  final line \<open>Exception: exc1\<close>.
\<close>

theorem format_exception_entry_witness:
  "map_of exception_record ''exc_info'' = Some exc_info_1 \<and>
   exc_info_1 \<noteq> PNone \<and>
   ''exception'' \<notin> fst ` set exception_record - set (DEFAULT_PROPERTIES sample_lib) \<and>
   MongoFormatter_format sample_lib exception_record = Inr exception_document \<and>
   map_of exception_document ''exception'' =
     Some (PDict [(''message'', PStr ''exc1''), (''code'', PInt 0),
                  (''stackTrace'',
                   PStr (''Traceback (most recent call last):\<newline>'' @
                         ''  File dblog.py, line 36, in test_emit_exception\<newline>'' @
                         ''Exception: exc1''))])"
proof -
  have h1: "map_of exception_record ''exc_info'' = Some exc_info_1"
    by code_simp
  have h2: "exc_info_1 \<noteq> PNone"
    by code_simp
  have h3: "''exception'' \<notin> fst ` set exception_record - set (DEFAULT_PROPERTIES sample_lib)"
    by code_simp
  have h4: "MongoFormatter_format sample_lib exception_record = Inr exception_document"
    by code_simp
  have v: "py_getitem exc_info_1 1 = Inr (PObject ''exc1'')"
    by code_simp
  have m: "py_str sample_lib (PObject ''exc1'') = Inr ''exc1''"
    by code_simp
  have s: "formatException sample_lib exc_info_1 =
             Inr (''Traceback (most recent call last):\<newline>'' @
                  ''  File dblog.py, line 36, in test_emit_exception\<newline>'' @
                  ''Exception: exc1'')"
    by code_simp
  from format_exception_entry [OF h1 h2 h3 h4] obtain exc_value message stackTrace
    where "py_getitem exc_info_1 1 = Inr exc_value"
      and "py_str sample_lib exc_value = Inr message"
      and "formatException sample_lib exc_info_1 = Inr stackTrace"
      and e: "map_of exception_document ''exception'' =
             Some (PDict [(''message'', PStr message), (''code'', PInt 0),
                          (''stackTrace'', PStr stackTrace)])"
    by blast
  with v m s have "message = ''exc1''"
    and "stackTrace = ''Traceback (most recent call last):\<newline>'' @
                  ''  File dblog.py, line 36, in test_emit_exception\<newline>'' @
                  ''Exception: exc1''"
    by simp_all
  with e have r: "map_of exception_document ''exception'' =
     Some (PDict [(''message'', PStr ''exc1''), (''code'', PInt 0),
                  (''stackTrace'',
                   PStr (''Traceback (most recent call last):\<newline>'' @
                         ''  File dblog.py, line 36, in test_emit_exception\<newline>'' @
                         ''Exception: exc1''))])"
    by simp
  show ?thesis
    by (rule conjI [OF h1 conjI [OF h2 conjI [OF h3 conjI [OF h4 r]]]])
qed

section \<open>The properties of the handler\<close>

text \<open>
  C1.  When a connection URL is supplied, the handler should end with the client created
  from the URL as its connection.  It does not: line 102 assigns the client to the
  attribute \<open>connnection\<close>, \<open>connection\<close> stays \<open>None\<close>, and line 112 subscripts \<open>None\<close>.
  With a store that answers every call,
  \<open>MongoHandler(url='mongodb://localhost:27017')\<close> raises \<open>TypeError\<close> after the client has
  been created.
\<close>

theorem url_connection_raises:
  "MongoHandler_init reachable_driver 0 (Some ''mongodb://localhost:27017'') ''localhost'' 27017
     ''logs'' ''logs'' None None False None False 1000 1000000 [] []
   = (Inl TypeError, [(NewClient (ClientUrl ''mongodb://localhost:27017''), None)])"
  by code_simp

text \<open>
  More generally, with a URL the constructor never returns a handler that has a
  connection: it raises, or it returns the inert handler of a silent failure.
\<close>

lemma url_connection_never_active:
  assumes "u \<noteq> []"
      and "MongoHandler_init drv level' (Some u) host' port' database_name' collection' username'
             password' fail_silently' formatter' capped' capped_max' capped_size' options' w
           = (Inr self, w')"
  shows "connection self = None \<and> collection self = None"
  using assms
  by (cases "outcome drv w (NewClient (ClientUrl u))")
     (auto simp add: MongoHandler_init_def MongoHandler_connect_def connect_client_outcome
        target_client_def connect_database_def split: if_splits)

text \<open>
  C3.  If the handler is constructed with \<open>fail_silently\<close> set and the creation of the
  client fails with an error of the driver (a \<open>PyMongoError\<close>), the constructor returns a
  handler; that handler has no connection and no collection, and every \<open>emit\<close> on it,
  whatever the record and whatever the state of the world, returns without raising and
  without any call to the store: no document is inserted.
\<close>

theorem fail_silent_connection_failure:
  assumes "outcome drv w (NewClient (target_client url' host' port' options')) = Some e"
      and "is_PyMongoError e"
  shows "\<exists>self.
           MongoHandler_init drv level' url' host' port' database_name' collection' username' password'
             True formatter' capped' capped_max' capped_size' options' w
             = (Inr self, w @ [(NewClient (target_client url' host' port' options'), Some e)]) \<and>
           connection self = None \<and> collection self = None \<and> \<not> authenticated self \<and>
           (\<forall>lib record w'. MongoHandler_emit drv lib self record w' = (None, w'))"
  using assms
  by (simp add: MongoHandler_init_def MongoHandler_connect_def connect_client_outcome MongoHandler_emit_def)

text \<open>
  The theorem at \<open>MongoHandler(fail_silently=True)\<close> with a store that cannot be reached,
  followed by \<open>emit\<close> of the record of \<open>logger.info('Hello World')\<close>.
\<close>

theorem fail_silent_connection_failure_witness:
  "outcome unreachable_driver [] (NewClient (target_client None ''localhost'' 27017 [])) = Some PyMongoError \<and>
   is_PyMongoError PyMongoError \<and>
   MongoHandler_init unreachable_driver 0 None ''localhost'' 27017 ''logs'' ''logs'' None None
     True None False 1000 1000000 [] []
     = (Inr inert_handler, [(NewClient (ClientHostPort ''localhost'' 27017 []), Some PyMongoError)]) \<and>
   MongoHandler_emit unreachable_driver sample_lib inert_handler hello_record
     [(NewClient (ClientHostPort ''localhost'' 27017 []), Some PyMongoError)]
     = (None, [(NewClient (ClientHostPort ''localhost'' 27017 []), Some PyMongoError)])"
proof -
  have h1: "outcome unreachable_driver [] (NewClient (target_client None ''localhost'' 27017 [])) = Some PyMongoError"
    by code_simp
  have h2: "is_PyMongoError PyMongoError"
    by simp
  have i: "MongoHandler_init unreachable_driver 0 None ''localhost'' 27017 ''logs'' ''logs'' None None
     True None False 1000 1000000 [] []
     = (Inr inert_handler, [(NewClient (ClientHostPort ''localhost'' 27017 []), Some PyMongoError)])"
    by code_simp
  from fail_silent_connection_failure [OF h1 h2, of 0 "''logs''" "''logs''" None None None False 1000 1000000]
  obtain self where
    "MongoHandler_init unreachable_driver 0 None ''localhost'' 27017 ''logs'' ''logs'' None None
       True None False 1000 1000000 [] []
     = (Inr self, [] @ [(NewClient (target_client None ''localhost'' 27017 []), Some PyMongoError)])"
    and e: "\<forall>lib record w'. MongoHandler_emit unreachable_driver lib self record w' = (None, w')"
    by blast
  with i have "self = inert_handler" by simp
  with e have "MongoHandler_emit unreachable_driver sample_lib inert_handler hello_record
     [(NewClient (ClientHostPort ''localhost'' 27017 []), Some PyMongoError)]
     = (None, [(NewClient (ClientHostPort ''localhost'' 27017 []), Some PyMongoError)])"
    by blast
  with h1 h2 i show ?thesis by blast
qed

text \<open>
  C4.  If the handler is constructed with \<open>fail_silently\<close> not set and the creation of the
  client fails, the constructor raises the error of the creation: no handler is returned.
\<close>

theorem loud_connection_failure:
  assumes "outcome drv w (NewClient (target_client url' host' port' options')) = Some e"
  shows "MongoHandler_init drv level' url' host' port' database_name' collection' username' password'
           False formatter' capped' capped_max' capped_size' options' w
           = (Inl e, w @ [(NewClient (target_client url' host' port' options'), Some e)])"
  using assms
  by (simp add: MongoHandler_init_def MongoHandler_connect_def connect_client_outcome)

text \<open>The theorem at \<open>MongoHandler()\<close> with a store that cannot be reached.\<close>

theorem loud_connection_failure_witness:
  "outcome unreachable_driver [] (NewClient (target_client None ''localhost'' 27017 [])) = Some PyMongoError \<and>
   MongoHandler_init unreachable_driver 0 None ''localhost'' 27017 ''logs'' ''logs'' None None
     False None False 1000 1000000 [] []
     = (Inl PyMongoError, [(NewClient (ClientHostPort ''localhost'' 27017 []), Some PyMongoError)])"
proof -
  have h1: "outcome unreachable_driver [] (NewClient (target_client None ''localhost'' 27017 [])) = Some PyMongoError"
    by code_simp
  have t: "target_client None ''localhost'' 27017 [] = ClientHostPort ''localhost'' 27017 []"
    by (simp add: target_client_def)
  from loud_connection_failure [OF h1, of 0 "''logs''" "''logs''" None None None False 1000 1000000] h1
  show ?thesis unfolding t by simp
qed

text \<open>
  C5.  When the constructor has asked the driver to create the capped collection and the
  driver has raised \<open>OperationFailure\<close> (the collection exists already), the constructor
  does not raise: it returns a handler whose collection is the collection of that name,
  opened by name, without capped parameters; capped mode had been requested; and the
  failed creation is the only creation the constructor has asked for and its last call.
\<close>

theorem capped_collection_exists:
  assumes "MongoHandler_init drv level' url' host' port' database_name' collection' username' password'
             fail_silently' formatter' capped' capped_max' capped_size' options' w = (result, w')"
      and "(CreateCapped d name m s, Some e) \<in> set (drop (length w) w')"
      and "is_OperationFailure e"
  shows "\<exists>self. result = Inr self \<and>
           capped' \<and> name = collection' \<and>
           db self = Some d \<and>
           collection self = Some (Collection_byname d name) \<and>
           filter (\<lambda>x. is_CreateCapped (fst x)) (drop (length w) w') = [(CreateCapped d name m s, Some e)] \<and>
           last w' = (CreateCapped d name m s, Some e)"
proof -
  define self0 where "self0 =
     \<lparr>level = level', url = url', host = host', port = port',
      database_name = database_name', collection_name = collection',
      username = username', password = password', fail_silently = fail_silently',
      connection = None, db = None, collection = None, authenticated = False,
      formatter = MongoFormatter, capped = capped', capped_max = capped_max',
      capped_size = capped_size', options = options', connnection = None\<rparr>"
  obtain r self1 w1 where c: "MongoHandler_connect drv self0 w = (r, self1, w1)"
    by (metis prod_cases3)
  with assms(1) have w1: "w1 = w'" and res: "result = (case r of None \<Rightarrow> Inr self1 | Some e \<Rightarrow> Inl e)"
    by (auto simp add: MongoHandler_init_def self0_def split: option.splits)
  from connect_effect(2) [OF c, of d name m s e] assms(2,3) w1
  have "r = None \<and> capped self0 \<and> name = collection_name self0 \<and> db self1 = Some d \<and>
           collection self1 = Some (Collection_byname d name) \<and>
           filter (\<lambda>x. is_CreateCapped (fst x)) (drop (length w) w') = [(CreateCapped d name m s, Some e)] \<and>
           last w' = (CreateCapped d name m s, Some e)"
    by simp
  with res show ?thesis by (simp add: self0_def)
qed

text \<open>
  The theorem at \<open>MongoHandler(capped=True)\<close> with a store in which the collection exists
  already.
\<close>

theorem capped_collection_exists_witness:
  "(CreateCapped (Database (ClientHostPort ''localhost'' 27017 []) ''logs'') ''logs'' 1000 1000000,
    Some OperationFailure)
     \<in> set (drop (length ([] :: world))
              (snd (MongoHandler_init existing_collection_driver 0 None ''localhost'' 27017 ''logs''
                      ''logs'' None None False None True 1000 1000000 [] []))) \<and>
   is_OperationFailure OperationFailure \<and>
   map_sum id collection
     (fst (MongoHandler_init existing_collection_driver 0 None ''localhost'' 27017 ''logs''
             ''logs'' None None False None True 1000 1000000 [] []))
     = Inr (Some logs_collection)"
proof -
  have i: "MongoHandler_init existing_collection_driver 0 None ''localhost'' 27017 ''logs''
             ''logs'' None None False None True 1000 1000000 [] []
           = (fst (MongoHandler_init existing_collection_driver 0 None ''localhost'' 27017 ''logs''
                     ''logs'' None None False None True 1000 1000000 [] []),
              snd (MongoHandler_init existing_collection_driver 0 None ''localhost'' 27017 ''logs''
                     ''logs'' None None False None True 1000 1000000 [] []))"
    by simp
  have h2: "(CreateCapped (Database (ClientHostPort ''localhost'' 27017 []) ''logs'') ''logs'' 1000 1000000,
             Some OperationFailure)
     \<in> set (drop (length ([] :: world))
              (snd (MongoHandler_init existing_collection_driver 0 None ''localhost'' 27017 ''logs''
                      ''logs'' None None False None True 1000 1000000 [] [])))"
    by code_simp
  have h3: "is_OperationFailure OperationFailure"
    by simp
  from capped_collection_exists [OF i h2 h3] obtain self
    where "fst (MongoHandler_init existing_collection_driver 0 None ''localhost'' 27017 ''logs''
                  ''logs'' None None False None True 1000 1000000 [] []) = Inr self"
      and "collection self = Some (Collection_byname
             (Database (ClientHostPort ''localhost'' 27017 []) ''logs'') ''logs'')"
    by blast
  then have "map_sum id collection
     (fst (MongoHandler_init existing_collection_driver 0 None ''localhost'' 27017 ''logs''
             ''logs'' None None False None True 1000 1000000 [] []))
     = Inr (Some logs_collection)"
    by (simp add: logs_collection_def)
  with h2 h3 show ?thesis by blast
qed

text \<open>
  C6.  For every \<open>emit\<close> on a handler that has a collection, when the record has been
  formatted and the insert of the document raises an exception (any \<open>Exception\<close>): with
  \<open>fail_silently\<close> set, \<open>emit\<close> returns and does nothing more; with \<open>fail_silently\<close> not
  set, \<open>emit\<close> calls \<open>handleError\<close> for the record, and what \<open>emit\<close> then does is what
  \<open>handleError\<close> does: the exception of the insert is not raised, and \<open>emit\<close> returns
  when \<open>handleError\<close> returns.
\<close>

theorem emit_insert_failure:
  assumes "collection self = Some coll"
      and "Handler_format lib self record = Inr document"
      and "outcome drv w (Insert coll document) = Some e"
      and "is_Exception e"
  shows "(fail_silently self \<longrightarrow>
            MongoHandler_emit drv lib self record w = (None, w @ [(Insert coll document, Some e)])) \<and>
         (\<not> fail_silently self \<longrightarrow>
            MongoHandler_emit drv lib self record w =
              (outcome drv (w @ [(Insert coll document, Some e)]) (HandleError record),
               w @ [(Insert coll document, Some e),
                    (HandleError record,
                     outcome drv (w @ [(Insert coll document, Some e)]) (HandleError record))]) \<and>
            (outcome drv (w @ [(Insert coll document, Some e)]) (HandleError record) = None \<longrightarrow>
               fst (MongoHandler_emit drv lib self record w) = None))"
  using assms by (simp add: MongoHandler_emit_def perform_def)

text \<open>
  The theorem at the record of \<open>logger.info('Hello World')\<close> and a store that rejects every
  insert, once for a handler with \<open>fail_silently\<close> not set and once for one with it set.
\<close>

theorem emit_insert_failure_witness:
  "collection (ready_handler False) = Some logs_collection \<and>
   Handler_format sample_lib (ready_handler False) hello_record = Inr hello_document \<and>
   outcome rejecting_driver [] (Insert logs_collection hello_document) = Some OperationFailure \<and>
   is_Exception OperationFailure \<and>
   MongoHandler_emit rejecting_driver sample_lib (ready_handler False) hello_record []
     = (None, [(Insert logs_collection hello_document, Some OperationFailure),
               (HandleError hello_record, None)]) \<and>
   MongoHandler_emit rejecting_driver sample_lib (ready_handler True) hello_record []
     = (None, [(Insert logs_collection hello_document, Some OperationFailure)])"
proof -
  have c: "collection (ready_handler silent) = Some logs_collection" for silent
    by (simp add: ready_handler_def logs_collection_def)
  have f: "Handler_format sample_lib (ready_handler silent) hello_record = Inr hello_document" for silent
  proof -
    have "MongoFormatter_format sample_lib hello_record = Inr hello_document"
      by code_simp
    then show ?thesis
      by (simp add: Handler_format_def ready_handler_def)
  qed
  have i: "outcome rejecting_driver [] (Insert logs_collection hello_document) = Some OperationFailure"
    by (simp add: rejecting_driver_def)
  have x: "is_Exception OperationFailure"
    by simp
  have h: "outcome rejecting_driver ([] @ [(Insert logs_collection hello_document, Some OperationFailure)])
             (HandleError hello_record) = None"
    by (simp add: rejecting_driver_def)
  have loud: "\<not> fail_silently (ready_handler False)" and silent: "fail_silently (ready_handler True)"
    by (simp_all add: ready_handler_def)
  from emit_insert_failure [OF c f i x, of False] loud
  have e1: "MongoHandler_emit rejecting_driver sample_lib (ready_handler False) hello_record []
     = (None, [(Insert logs_collection hello_document, Some OperationFailure),
               (HandleError hello_record, None)])"
    unfolding h by simp
  from emit_insert_failure [OF c f i x, of True] silent
  have e2: "MongoHandler_emit rejecting_driver sample_lib (ready_handler True) hello_record []
     = (None, [(Insert logs_collection hello_document, Some OperationFailure)])"
    by simp
  show ?thesis
    by (rule conjI [OF c conjI [OF f conjI [OF i conjI [OF x conjI [OF e1 e2]]]]])
qed

text \<open>
  C9.  Whatever the \<open>formatter\<close> argument of the constructor, the constructor does what
  it does without that argument, and the formatter of the handler it returns is a
  \<open>MongoFormatter\<close>: the handler formats every record with \<open>MongoFormatter.format\<close>.
\<close>

theorem formatter_argument_ignored:
  "MongoHandler_init drv level' url' host' port' database_name' collection' username' password'
     fail_silently' formatter' capped' capped_max' capped_size' options' w
   = MongoHandler_init drv level' url' host' port' database_name' collection' username' password'
     fail_silently' None capped' capped_max' capped_size' options' w
   \<and> (\<forall>self w'.
        MongoHandler_init drv level' url' host' port' database_name' collection' username' password'
          fail_silently' formatter' capped' capped_max' capped_size' options' w = (Inr self, w')
        \<longrightarrow> formatter self = MongoFormatter \<and>
            (\<forall>lib record. Handler_format lib self record = MongoFormatter_format lib record))"
proof -
  have "formatter self = MongoFormatter"
    if "MongoHandler_init drv level' url' host' port' database_name' collection' username' password'
          fail_silently' formatter' capped' capped_max' capped_size' options' w = (Inr self, w')"
    for self w'
  proof -
    define self0 where "self0 =
     \<lparr>level = level', url = url', host = host', port = port',
      database_name = database_name', collection_name = collection',
      username = username', password = password', fail_silently = fail_silently',
      connection = None, db = None, collection = None, authenticated = False,
      formatter = MongoFormatter, capped = capped', capped_max = capped_max',
      capped_size = capped_size', options = options', connnection = None\<rparr>"
    obtain r self1 w1 where c: "MongoHandler_connect drv self0 w = (r, self1, w1)"
      by (metis prod_cases3)
    with that have "self = self1"
      by (auto simp add: MongoHandler_init_def self0_def split: option.splits)
    with connect_effect(1) [OF c] show ?thesis by (simp add: self0_def)
  qed
  then show ?thesis
    by (simp add: MongoHandler_init_def Handler_format_def)
qed

text \<open>
  The theorem at \<open>MongoHandler(formatter=f)\<close>, \<open>f\<close> a formatter of another class, with a
  store that answers every call.
\<close>

theorem formatter_argument_ignored_witness:
  "MongoHandler_init reachable_driver 0 None ''localhost'' 27017 ''logs'' ''logs'' None None
     False (Some (OtherFormatter ''logging.Formatter'')) False 1000 1000000 [] []
     = (Inr (ready_handler False), [(NewClient (ClientHostPort ''localhost'' 27017 []), None)]) \<and>
   formatter (ready_handler False) = MongoFormatter \<and>
   Handler_format sample_lib (ready_handler False) hello_record = Inr hello_document"
proof -
  have i: "MongoHandler_init reachable_driver 0 None ''localhost'' 27017 ''logs'' ''logs'' None None
     False (Some (OtherFormatter ''logging.Formatter'')) False 1000 1000000 [] []
     = (Inr (ready_handler False), [(NewClient (ClientHostPort ''localhost'' 27017 []), None)])"
    by code_simp
  have m: "MongoFormatter_format sample_lib hello_record = Inr hello_document"
    by code_simp
  from conjunct2 [OF formatter_argument_ignored
      [of reachable_driver 0 None "''localhost''" 27017 "''logs''" "''logs''" None None
          False "Some (OtherFormatter ''logging.Formatter'')" False 1000 1000000 "[]" "[]"]] i
  have r: "formatter (ready_handler False) = MongoFormatter \<and>
        (\<forall>lib record. Handler_format lib (ready_handler False) record = MongoFormatter_format lib record)"
    by blast
  then have "Handler_format sample_lib (ready_handler False) hello_record = Inr hello_document"
    using m by simp
  with i r show ?thesis by blast
qed

text \<open>
  C10.  \<open>close\<close> on a handler that has no connection and is not authenticated (as the
  handler that a silent connection failure leaves) returns without raising and without
  any call: no logout, no close of a connection.
\<close>

theorem close_unconnected:
  assumes "connection self = None" and "\<not> authenticated self"
  shows "MongoHandler_close drv self w = (None, w)"
  using assms by (simp add: MongoHandler_close_def)

text \<open>The theorem at the handler that a silent connection failure leaves.\<close>

theorem close_unconnected_witness:
  "connection inert_handler = None \<and> \<not> authenticated inert_handler \<and>
   MongoHandler_close reachable_driver inert_handler
     [(NewClient (ClientHostPort ''localhost'' 27017 []), Some PyMongoError)]
     = (None, [(NewClient (ClientHostPort ''localhost'' 27017 []), Some PyMongoError)])"
proof -
  have h1: "connection inert_handler = None" and h2: "\<not> authenticated inert_handler"
    by (simp_all add: inert_handler_def)
  from close_unconnected [OF h1 h2] h1 h2 show ?thesis by blast
qed

end
